theory Spec2Isabelle
  imports Complex_Main "HOL-Library.Word"
begin

unbundle bit_operations_syntax

section \<open>Python values and exceptions\<close>

text \<open>
  The driver is Python: integers are unbounded (\<open>int\<close>), \<open><<\<close>, \<open>>>\<close>, \<open>&\<close> and
  \<open>|\<close> are \<open>push_bit\<close>, \<open>drop_bit\<close>, \<open>AND\<close> and \<open>OR\<close> on \<open>int\<close> (two's complement
  of unbounded width, as in Python). Every \<open>raise\<close> of the source, and every exception the
  interpreter raises in the lines modelled, is a value of \<open>error\<close>.
\<close>

datatype error =
    ValueError
  | TypeError
  | ZeroDivisionError
  | IndexError
  | AttributeError
  | Exception_DeviceID      \<comment> \<open>"Device ID returned is not correct! ..."\<close>
  | Exception_DeviceError   \<comment> \<open>"Device returned an Error! ..."\<close>
  | Exception_AppMode       \<comment> \<open>"Device did not enter application mode! ..."\<close>

text \<open>
  The values that cross the driver's interface: \<open>readData\<close> returns \<open>False\<close> or an
  integer, \<open>setEnvironmentalData\<close> is called with integers or floats. A float carries a
  real number; no operation that inspects the number of a float is reached by the
  definitions below before an exception, except in \<open>calculateTemperature\<close>, whose
  arithmetic is idealised over the reals.
\<close>

datatype pyval = PyBool bool | PyInt int | PyFloat real

text \<open>Python's truth value of an integer.\<close>

definition truthy :: "int \<Rightarrow> bool" where
  "truthy v \<longleftrightarrow> v \<noteq> 0"

text \<open>\<open>buf[i]\<close> for a literal index \<open>i \<ge> 0\<close>: IndexError beyond the end.\<close>

definition py_index :: "'a list \<Rightarrow> nat \<Rightarrow> error + 'a" where
  "py_index xs i = (if i < length xs then Inr (xs ! i) else Inl IndexError)"

section \<open>The bit-field codec\<close>

text \<open>
  Modelled from the spec: the class \<open>Adafruit_bitfield\<close> is imported by the driver and is
  not among the sources. A bit field is an ordered sequence of named sub-fields, each with
  a width and its current value; fields are packed least-significant-first in declaration
  order. Encoding (\<open>get\<close>) OR-combines each field's value, masked to its width and shifted
  to its position; decoding (\<open>set\<close>) replaces every field's value by the bits at its
  position. All fields start at 0.
\<close>

type_synonym field = "string \<times> nat \<times> int"
type_synonym bitfield = "field list"

definition Adafruit_bitfield :: "(string \<times> nat) list \<Rightarrow> bitfield" where
  "Adafruit_bitfield structure = map (\<lambda>(name, width). (name, width, 0)) structure"

definition bf_structure :: "bitfield \<Rightarrow> (string \<times> nat) list" where
  "bf_structure bf = map (\<lambda>(name, width, v). (name, width)) bf"

fun bf_get_from :: "nat \<Rightarrow> bitfield \<Rightarrow> int" where
  "bf_get_from pos [] = 0"
| "bf_get_from pos ((name, width, v) # fs) =
     push_bit pos (v AND mask width) OR bf_get_from (pos + width) fs"

definition bf_get :: "bitfield \<Rightarrow> int" where
  "bf_get bf = bf_get_from 0 bf"

fun bf_set_from :: "nat \<Rightarrow> int \<Rightarrow> bitfield \<Rightarrow> bitfield" where
  "bf_set_from pos raw [] = []"
| "bf_set_from pos raw ((name, width, v) # fs) =
     (name, width, drop_bit pos raw AND mask width) # bf_set_from (pos + width) raw fs"

definition bf_set :: "int \<Rightarrow> bitfield \<Rightarrow> bitfield" where
  "bf_set raw bf = bf_set_from 0 raw bf"

text \<open>
  Attribute access by field name. Reading a name that is no field raises AttributeError;
  assigning stores the value as given (it is masked when the register is encoded) and
  leaves every other field as it is.
\<close>

fun bf_getattr :: "bitfield \<Rightarrow> string \<Rightarrow> error + int" where
  "bf_getattr [] key = Inl AttributeError"
| "bf_getattr ((name, width, v) # fs) key =
     (if name = key then Inr v else bf_getattr fs key)"

fun bf_setattr :: "bitfield \<Rightarrow> string \<Rightarrow> int \<Rightarrow> bitfield" where
  "bf_setattr [] key x = []"
| "bf_setattr ((name, width, v) # fs) key x =
     (if name = key then (name, width, x) # fs else (name, width, v) # bf_setattr fs key x)"



section \<open>The bus transport\<close>

text \<open>
  Modelled from the spec: the I2C device object (\<open>Adafruit_GPIO.I2C\<close>) is an external
  collaborator with the contract \<open>readU8(register)\<close>, \<open>readList(register, count)\<close>,
  \<open>write8(register, value)\<close>, \<open>writeList(register, bytes)\<close>. The device is a record of
  what it answers to a read, given every transaction issued so far, and of the trace of
  transactions; each call appends itself to the trace.
\<close>

datatype bus_op =
    ReadU8 int
  | ReadList int nat
  | Write8 int int
  | WriteList int "int list"

record i2c_device =
  address :: int
  answer8 :: "bus_op list \<Rightarrow> int \<Rightarrow> int"
  answerList :: "bus_op list \<Rightarrow> int \<Rightarrow> nat \<Rightarrow> int list"
  trace :: "bus_op list"

definition get_i2c_device :: "i2c_device \<Rightarrow> int \<Rightarrow> i2c_device" where
  "get_i2c_device i2c addr = i2c\<lparr>address := addr\<rparr>"

definition readU8 :: "i2c_device \<Rightarrow> int \<Rightarrow> int \<times> i2c_device" where
  "readU8 dev reg = (answer8 dev (trace dev) reg, dev\<lparr>trace := trace dev @ [ReadU8 reg]\<rparr>)"

definition readList :: "i2c_device \<Rightarrow> int \<Rightarrow> nat \<Rightarrow> int list \<times> i2c_device" where
  "readList dev reg n =
     (answerList dev (trace dev) reg n, dev\<lparr>trace := trace dev @ [ReadList reg n]\<rparr>)"

definition write8 :: "i2c_device \<Rightarrow> int \<Rightarrow> int \<Rightarrow> i2c_device" where
  "write8 dev reg v = dev\<lparr>trace := trace dev @ [Write8 reg v]\<rparr>"

definition writeList :: "i2c_device \<Rightarrow> int \<Rightarrow> int list \<Rightarrow> i2c_device" where
  "writeList dev reg vs = dev\<lparr>trace := trace dev @ [WriteList reg vs]\<rparr>"

section \<open>The driver\<close>

abbreviation (input) CCS811_ADDRESS :: int where "CCS811_ADDRESS \<equiv> 0x5A"

abbreviation (input) CCS811_STATUS :: int where "CCS811_STATUS \<equiv> 0x00"
abbreviation (input) CCS811_MEAS_MODE :: int where "CCS811_MEAS_MODE \<equiv> 0x01"
abbreviation (input) CCS811_ALG_RESULT_DATA :: int where "CCS811_ALG_RESULT_DATA \<equiv> 0x02"
abbreviation (input) CCS811_ENV_DATA :: int where "CCS811_ENV_DATA \<equiv> 0x05"
abbreviation (input) CCS811_NTC :: int where "CCS811_NTC \<equiv> 0x06"
abbreviation (input) CCS811_THRESHOLDS :: int where "CCS811_THRESHOLDS \<equiv> 0x10"
abbreviation (input) CCS811_HW_ID :: int where "CCS811_HW_ID \<equiv> 0x20"
abbreviation (input) CCS811_SW_RESET :: int where "CCS811_SW_RESET \<equiv> 0xFF"

abbreviation (input) CCS811_BOOTLOADER_APP_START :: int where "CCS811_BOOTLOADER_APP_START \<equiv> 0xF4"

abbreviation (input) CCS811_DRIVE_MODE_IDLE :: int where "CCS811_DRIVE_MODE_IDLE \<equiv> 0x00"
abbreviation (input) CCS811_DRIVE_MODE_1SEC :: int where "CCS811_DRIVE_MODE_1SEC \<equiv> 0x01"
abbreviation (input) CCS811_DRIVE_MODE_10SEC :: int where "CCS811_DRIVE_MODE_10SEC \<equiv> 0x02"
abbreviation (input) CCS811_DRIVE_MODE_60SEC :: int where "CCS811_DRIVE_MODE_60SEC \<equiv> 0x03"
abbreviation (input) CCS811_DRIVE_MODE_250MS :: int where "CCS811_DRIVE_MODE_250MS \<equiv> 0x04"

abbreviation (input) CCS811_HW_ID_CODE :: int where "CCS811_HW_ID_CODE \<equiv> 0x81"
abbreviation (input) CCS811_REF_RESISTOR :: int where "CCS811_REF_RESISTOR \<equiv> 100000"

text \<open>The three register layouts of \<open>__init__\<close>, least significant field first.\<close>

definition STATUS_structure :: "(string \<times> nat) list" where
  "STATUS_structure =
     [(''ERROR'', 1), (''unused'', 2), (''DATA_READY'', 1), (''APP_VALID'', 1),
      (''unused2'', 2), (''FW_MODE'', 1)]"

definition MEAS_MODE_structure :: "(string \<times> nat) list" where
  "MEAS_MODE_structure =
     [(''unused'', 2), (''INT_THRESH'', 1), (''INT_DATARDY'', 1), (''DRIVE_MODE'', 3)]"

definition ERROR_ID_structure :: "(string \<times> nat) list" where
  "ERROR_ID_structure =
     [(''WRITE_REG_INVALID'', 1), (''READ_REG_INVALID'', 1), (''MEASMODE_INVALID'', 1),
      (''MAX_RESISTANCE'', 1), (''HEATER_FAULT'', 1), (''HEATER_SUPPLY'', 1)]"

record ccs811 =
  device :: i2c_device
  status :: bitfield
  meas_mode :: bitfield
  error_id :: bitfield
  TVOC :: int
  eCO2 :: int
  tempOffset :: real

text \<open>
  A method returns its value, or the exception it raised, with the driver as the call
  left it. \<open>raise_or d r k\<close> continues with \<open>k\<close> on a value and stops with the driver
  \<open>d\<close> on an exception.
\<close>

definition raise_or ::
  "'s \<Rightarrow> error + 'a \<Rightarrow> ('a \<Rightarrow> (error + 'b) \<times> 's) \<Rightarrow> (error + 'b) \<times> 's" where
  "raise_or d r k = (case r of Inl e \<Rightarrow> (Inl e, d) | Inr x \<Rightarrow> k x)"

definition setDriveMode :: "ccs811 \<Rightarrow> int \<Rightarrow> ccs811" where
  "setDriveMode d mode =
     (let d1 = d\<lparr>meas_mode := bf_setattr (meas_mode d) ''DRIVE_MODE'' mode\<rparr>
      in d1\<lparr>device := write8 (device d1) CCS811_MEAS_MODE (bf_get (meas_mode d1))\<rparr>)"

definition enableInterrupt :: "ccs811 \<Rightarrow> ccs811" where
  "enableInterrupt d =
     (let d1 = d\<lparr>meas_mode := bf_setattr (meas_mode d) ''INT_DATARDY'' 1\<rparr>
      in d1\<lparr>device := write8 (device d1) CCS811_MEAS_MODE (bf_get (meas_mode d1))\<rparr>)"

definition disableInterrupt :: "ccs811 \<Rightarrow> ccs811" where
  "disableInterrupt d =
     (let d1 = d\<lparr>meas_mode := bf_setattr (meas_mode d) ''INT_DATARDY'' 0\<rparr>
      in d1\<lparr>device := write8 (device d1) CCS811_MEAS_MODE (bf_get (meas_mode d1))\<rparr>)"

definition checkError :: "ccs811 \<Rightarrow> (error + int) \<times> ccs811" where
  "checkError d =
     (let (v, dev1) = readU8 (device d) CCS811_STATUS;
          d1 = d\<lparr>device := dev1, status := bf_set v (status d)\<rparr>
      in (bf_getattr (status d1) ''ERROR'', d1))"

definition available :: "ccs811 \<Rightarrow> (error + bool) \<times> ccs811" where
  "available d =
     (let (v, dev1) = readU8 (device d) CCS811_STATUS;
          d1 = d\<lparr>device := dev1, status := bf_set v (status d)\<rparr>
      in raise_or d1 (bf_getattr (status d1) ''DATA_READY'') (\<lambda>data_ready.
           if \<not> truthy data_ready then (Inr False, d1) else (Inr True, d1)))"

definition readData :: "ccs811 \<Rightarrow> (error + pyval) \<times> ccs811" where
  "readData d =
     (case available d of
        (Inl e, d1) \<Rightarrow> (Inl e, d1)
      | (Inr avail, d1) \<Rightarrow>
          if \<not> avail then (Inr (PyBool False), d1)
          else
            (let (buf, dev2) = readList (device d1) CCS811_ALG_RESULT_DATA 8;
                 d2 = d1\<lparr>device := dev2\<rparr>
             in raise_or d2 (py_index buf 0) (\<lambda>b0.
                raise_or d2 (py_index buf 1) (\<lambda>b1.
                  let d3 = d2\<lparr>eCO2 := push_bit 8 b0 OR b1\<rparr>
                  in raise_or d3 (py_index buf 2) (\<lambda>b2.
                     raise_or d3 (py_index buf 3) (\<lambda>b3.
                       let d4 = d3\<lparr>TVOC := push_bit 8 b2 OR b3\<rparr>
                       in raise_or d4 (bf_getattr (status d4) ''ERROR'') (\<lambda>err.
                            if truthy err
                            then raise_or d4 (py_index buf 5) (\<lambda>b5. (Inr (PyInt b5), d4))
                            else (Inr (PyInt 0), d4))))))))"

text \<open>
  \<open>__init__\<close>. A failed construction returns no driver: the result is the exception and
  the bus as the constructor left it. The bus is always passed in (the source falls back
  to \<open>Adafruit_GPIO.I2C\<close> when \<open>i2c\<close> is \<open>None\<close>); the logger and \<open>sleep(.1)\<close> issue
  no transaction.
\<close>

definition Adafruit_CCS811_init ::
  "int \<Rightarrow> int \<Rightarrow> i2c_device \<Rightarrow> (error \<times> i2c_device) + ccs811" where
  "Adafruit_CCS811_init mode addr i2c =
     (if mode \<notin> set [CCS811_DRIVE_MODE_IDLE, CCS811_DRIVE_MODE_1SEC, CCS811_DRIVE_MODE_10SEC,
                      CCS811_DRIVE_MODE_60SEC, CCS811_DRIVE_MODE_250MS]
      then Inl (ValueError, i2c)
      else
        (let d0 = \<lparr>device = get_i2c_device i2c addr,
                   status = Adafruit_bitfield STATUS_structure,
                   meas_mode = Adafruit_bitfield MEAS_MODE_structure,
                   error_id = Adafruit_bitfield ERROR_ID_structure,
                   TVOC = 0, eCO2 = 0, tempOffset = 0\<rparr>;
             (hw_id, dev1) = readU8 (device d0) CCS811_HW_ID;
             d1 = d0\<lparr>device := dev1\<rparr>
         in if hw_id \<noteq> CCS811_HW_ID_CODE then Inl (Exception_DeviceID, device d1)
            else
              (let d2 = d1\<lparr>device := writeList (device d1) CCS811_BOOTLOADER_APP_START []\<rparr>
               in case checkError d2 of
                    (Inl e, d3) \<Rightarrow> Inl (e, device d3)
                  | (Inr err, d3) \<Rightarrow>
                      if truthy err then Inl (Exception_DeviceError, device d3)
                      else
                        (case bf_getattr (status d3) ''FW_MODE'' of
                           Inl e \<Rightarrow> Inl (e, device d3)
                         | Inr fw_mode \<Rightarrow>
                             if \<not> truthy fw_mode then Inl (Exception_AppMode, device d3)
                             else Inr (setDriveMode (disableInterrupt d3)
                                         CCS811_DRIVE_MODE_1SEC)))))"

subsection \<open>Environmental data\<close>

text \<open>
  Python's operators on the values \<open>setEnvironmentalData\<close> can be called with. The shift
  and bitwise operators take integers (a bool counts as 0 or 1) and raise TypeError on a
  float; \<open>+\<close> and \<open>/\<close> accept both.
\<close>

definition as_int :: "pyval \<Rightarrow> error + int" where
  "as_int x = (case x of PyBool b \<Rightarrow> Inr (of_bool b) | PyInt i \<Rightarrow> Inr i
               | PyFloat r \<Rightarrow> Inl TypeError)"

definition as_real :: "pyval \<Rightarrow> real" where
  "as_real x = (case x of PyBool b \<Rightarrow> of_bool b | PyInt i \<Rightarrow> of_int i | PyFloat r \<Rightarrow> r)"

definition py_lshift :: "pyval \<Rightarrow> nat \<Rightarrow> error + pyval" where
  "py_lshift x n = (case as_int x of Inl e \<Rightarrow> Inl e | Inr i \<Rightarrow> Inr (PyInt (push_bit n i)))"

definition py_rshift :: "pyval \<Rightarrow> nat \<Rightarrow> error + pyval" where
  "py_rshift x n = (case as_int x of Inl e \<Rightarrow> Inl e | Inr i \<Rightarrow> Inr (PyInt (drop_bit n i)))"

definition py_and :: "pyval \<Rightarrow> int \<Rightarrow> error + pyval" where
  "py_and x m = (case as_int x of Inl e \<Rightarrow> Inl e | Inr i \<Rightarrow> Inr (PyInt (i AND m)))"

definition py_or :: "pyval \<Rightarrow> pyval \<Rightarrow> error + pyval" where
  "py_or x y =
     (case as_int x of Inl e \<Rightarrow> Inl e
      | Inr i \<Rightarrow> (case as_int y of Inl e \<Rightarrow> Inl e | Inr j \<Rightarrow> Inr (PyInt (i OR j))))"

definition py_add_int :: "pyval \<Rightarrow> int \<Rightarrow> pyval" where
  "py_add_int x k = (case x of PyBool b \<Rightarrow> PyInt (of_bool b + k) | PyInt i \<Rightarrow> PyInt (i + k)
                     | PyFloat r \<Rightarrow> PyFloat (r + of_int k))"

definition py_div_float :: "pyval \<Rightarrow> real \<Rightarrow> error + pyval" where
  "py_div_float x c = (if c = 0 then Inl ZeroDivisionError else Inr (PyFloat (as_real x / c)))"

text \<open>
  \<open>math.fmod\<close> takes exactly two arguments. The driver calls it with one, so the call
  raises TypeError before its argument is looked at.
\<close>

definition math_fmod1 :: "pyval \<Rightarrow> error + pyval" where
  "math_fmod1 x = Inl TypeError"

text \<open>\<open>parts[i]\<close>: none of the values of \<open>pyval\<close> can be subscripted.\<close>

definition py_getitem :: "pyval \<Rightarrow> nat \<Rightarrow> error + pyval" where
  "py_getitem x i = Inl TypeError"

text \<open>The bytes handed to \<open>writeList\<close> must be integers.\<close>

fun as_int_list :: "pyval list \<Rightarrow> error + int list" where
  "as_int_list [] = Inr []"
| "as_int_list (x # xs) =
     (case as_int x of Inl e \<Rightarrow> Inl e
      | Inr i \<Rightarrow> (case as_int_list xs of Inl e \<Rightarrow> Inl e | Inr is \<Rightarrow> Inr (i # is)))"

definition setEnvironmentalData :: "ccs811 \<Rightarrow> pyval \<Rightarrow> pyval \<Rightarrow> (error + unit) \<times> ccs811" where
  "setEnvironmentalData d humidity temperature =
     raise_or d (py_lshift humidity 1) (\<lambda>hum_perc.
     raise_or d (math_fmod1 temperature) (\<lambda>parts.
     raise_or d (py_getitem parts 0) (\<lambda>fractional.
     raise_or d (py_getitem parts 1) (\<lambda>temperature.
     raise_or d (py_lshift (py_add_int temperature 25) 9) (\<lambda>temp_high.
     raise_or d (py_div_float fractional 0.001953125) (\<lambda>q.
     raise_or d (py_and q 0x1FF) (\<lambda>temp_low.
     raise_or d (py_or temp_high temp_low) (\<lambda>temp_conv.
     raise_or d (py_rshift temp_conv 8) (\<lambda>hi.
     raise_or d (py_and hi 0xFF) (\<lambda>hi_byte.
     raise_or d (py_and temp_conv 0xFF) (\<lambda>lo_byte.
     raise_or d (as_int_list [hum_perc, PyInt 0x00, hi_byte, lo_byte]) (\<lambda>buf.
       (Inr (), d\<lparr>device := writeList (device d) CCS811_ENV_DATA buf\<rparr>)))))))))))))"

subsection \<open>Temperature from the NTC register\<close>

text \<open>
  Float division raises ZeroDivisionError on a zero divisor, and \<open>math.log\<close> raises
  ValueError outside its domain. The arithmetic itself is over the reals.
\<close>

definition py_float_div :: "real \<Rightarrow> real \<Rightarrow> error + real" where
  "py_float_div a b = (if b = 0 then Inl ZeroDivisionError else Inr (a / b))"

definition math_log :: "real \<Rightarrow> error + real" where
  "math_log x = (if x \<le> 0 then Inl ValueError else Inr (ln x))"

definition calculateTemperature :: "ccs811 \<Rightarrow> (error + real) \<times> ccs811" where
  "calculateTemperature d =
     (let (buf, dev1) = readList (device d) CCS811_NTC 4;
          d1 = d\<lparr>device := dev1\<rparr>
      in raise_or d1 (py_index buf 0) (\<lambda>b0.
         raise_or d1 (py_index buf 1) (\<lambda>b1.
         raise_or d1 (py_index buf 2) (\<lambda>b2.
         raise_or d1 (py_index buf 3) (\<lambda>b3.
           let vref = push_bit 8 b0 OR b1;
               vrntc = push_bit 8 b2 OR b3
           in raise_or d1 (py_float_div (of_int vrntc * of_int CCS811_REF_RESISTOR)
                             (of_int vref)) (\<lambda>rntc.
              raise_or d1 (math_log (rntc / 10000)) (\<lambda>ntc_temp.
                let ntc_temp = ntc_temp / 3380;
                    ntc_temp = ntc_temp + 1 / (25 + 273.15)
                in raise_or d1 (py_float_div 1 ntc_temp) (\<lambda>ntc_temp.
                     let ntc_temp = ntc_temp - 273.15
                     in (Inr (ntc_temp - tempOffset d1), d1)))))))))"

subsection \<open>Thresholds, reset and the measurement mirrors\<close>

definition setThresholds :: "ccs811 \<Rightarrow> int \<Rightarrow> int \<Rightarrow> int \<Rightarrow> ccs811" where
  "setThresholds d low_med med_high hysteresis =
     (let buf = [drop_bit 8 low_med AND 0xF, low_med AND 0xF,
                 drop_bit 8 med_high AND 0xF, med_high AND 0xF, hysteresis]
      in d\<lparr>device := writeList (device d) CCS811_THRESHOLDS buf\<rparr>)"

definition SWReset :: "ccs811 \<Rightarrow> ccs811" where
  "SWReset d =
     (let seq = [0x11, 0xE5, 0x72, 0x8A]
      in d\<lparr>device := writeList (device d) CCS811_SW_RESET seq\<rparr>)"

definition getTVOC :: "ccs811 \<Rightarrow> int" where
  "getTVOC d = TVOC d"

definition geteCO2 :: "ccs811 \<Rightarrow> int" where
  "geteCO2 d = eCO2 d"

subsection \<open>What the device is about to answer\<close>

text \<open>
  The status byte a driver will read next, and the block its 8-byte (4-byte) read gets
  once the status has been read (at once).
\<close>

definition next_status :: "ccs811 \<Rightarrow> int" where
  "next_status d = answer8 (device d) (trace (device d)) CCS811_STATUS"

definition next_alg_result :: "ccs811 \<Rightarrow> int list" where
  "next_alg_result d =
     answerList (device d) (trace (device d) @ [ReadU8 CCS811_STATUS]) CCS811_ALG_RESULT_DATA 8"

definition next_ntc :: "ccs811 \<Rightarrow> int list" where
  "next_ntc d = answerList (device d) (trace (device d)) CCS811_NTC 4"

text \<open>
  A constructed driver: the status and measurement-mode mirrors have the layouts that
  \<open>__init__\<close> gave them.
\<close>

definition constructed :: "ccs811 \<Rightarrow> bool" where
  "constructed d \<longleftrightarrow>
     bf_structure (status d) = STATUS_structure \<and>
     bf_structure (meas_mode d) = MEAS_MODE_structure"

subsection \<open>Bytes and a sample sensor\<close>

text \<open>A value that fits a byte of a bus payload.\<close>

definition is_byte :: "int \<Rightarrow> bool" where
  "is_byte b \<longleftrightarrow> 0 \<le> b \<and> b < 256"

text \<open>
  A sensor on the bus: it answers the hardware-ID register with \<open>hw_id\<close>, the status
  register with \<open>boot_status\<close> until the status has been read once (the read of
  \<open>__init__\<close>) and with \<open>run_status\<close> afterwards, the NTC register with \<open>ntc\<close> and
  every other block read with \<open>alg\<close>.
\<close>

definition sensor :: "int \<Rightarrow> int \<Rightarrow> int \<Rightarrow> int list \<Rightarrow> int list \<Rightarrow> i2c_device" where
  "sensor hw_id boot_status run_status alg ntc =
     \<lparr>address = 0,
      answer8 = (\<lambda>t reg. if reg = CCS811_HW_ID then hw_id
                         else if ReadU8 CCS811_STATUS \<in> set t then run_status
                         else boot_status),
      answerList = (\<lambda>t reg n. if reg = CCS811_NTC then ntc else alg),
      trace = []\<rparr>"

text \<open>
  A sensor that is polled: its answers to the status register are \<open>statuses\<close>, one per
  status read in turn, and \<open>idle_status\<close> once they are used up; every block read gets
  \<open>alg\<close>.
\<close>

definition polled_sensor :: "int \<Rightarrow> int list \<Rightarrow> int \<Rightarrow> int list \<Rightarrow> i2c_device" where
  "polled_sensor hw_id statuses idle_status alg =
     \<lparr>address = 0,
      answer8 = (\<lambda>t reg.
         if reg = CCS811_HW_ID then hw_id
         else (let n = length (filter (\<lambda>op. op = ReadU8 CCS811_STATUS) t)
               in if n < length statuses then statuses ! n else idle_status)),
      answerList = (\<lambda>t reg n. alg),
      trace = []\<rparr>"

section \<open>Properties of the codec\<close>







section \<open>Properties of the driver\<close>

lemma bf_set_from_structure:
  "bf_structure bf = bf_structure bf' \<Longrightarrow> bf_set_from pos raw bf = bf_set_from pos raw bf'"
proof (induction bf arbitrary: bf' pos)
  case Nil
  then show ?case by (simp add: bf_structure_def)
next
  case (Cons f fs)
  obtain name width v where f: "f = (name, width, v)" by (cases f)
  from Cons.prems obtain g gs where bf': "bf' = g # gs"
    by (cases bf') (simp_all add: bf_structure_def)
  obtain name' width' v' where g: "g = (name', width', v')" by (cases g)
  from Cons.prems have same: "name' = name" "width' = width" and tl: "bf_structure fs = bf_structure gs"
    by (simp_all add: bf_structure_def f g bf')
  have "bf_set_from (pos + width) raw fs = bf_set_from (pos + width) raw gs"
    using tl by (rule Cons.IH)
  then show ?case by (simp add: f g bf' same)
qed

lemma bf_structure_new: "bf_structure (Adafruit_bitfield st) = st"
  by (induction st) (auto simp add: bf_structure_def Adafruit_bitfield_def)

lemma bf_structure_set: "bf_structure (bf_set_from pos raw bf) = bf_structure bf"
  by (induction pos raw bf rule: bf_set_from.induct) (simp_all add: bf_structure_def)

lemma bf_structure_setattr: "bf_structure (bf_setattr bf key x) = bf_structure bf"
  by (induction bf key x rule: bf_setattr.induct) (simp_all add: bf_structure_def)

lemma status_decoded:
  assumes "bf_structure bf = STATUS_structure"
  shows "bf_set v bf =
     [(''ERROR'', 1, v AND mask 1), (''unused'', 2, drop_bit 1 v AND mask 2),
      (''DATA_READY'', 1, drop_bit 3 v AND mask 1), (''APP_VALID'', 1, drop_bit 4 v AND mask 1),
      (''unused2'', 2, drop_bit 5 v AND mask 2), (''FW_MODE'', 1, drop_bit 7 v AND mask 1)]"
proof -
  have "bf_structure bf = bf_structure (Adafruit_bitfield STATUS_structure)"
    by (simp add: assms bf_structure_new)
  then have "bf_set_from 0 v bf = bf_set_from 0 v (Adafruit_bitfield STATUS_structure)"
    by (rule bf_set_from_structure)
  then show ?thesis
    by (simp add: bf_set_def Adafruit_bitfield_def STATUS_structure_def eval_nat_numeral)
qed

lemma field_bit: "truthy (drop_bit n v AND 1) = bit v n"
  by (simp add: truthy_def bit_iff_odd_drop_bit and_one_eq mod_2_eq_odd)

lemma field_bit0: "truthy (v AND 1) = bit v 0"
  using field_bit [of 0 v] by simp

lemma status_ERROR:
  assumes "bf_structure bf = STATUS_structure"
  shows "bf_getattr (bf_set v bf) ''ERROR'' = Inr (v AND 1)"
  by (simp add: status_decoded [OF assms])

lemma status_DATA_READY:
  assumes "bf_structure bf = STATUS_structure"
  shows "bf_getattr (bf_set v bf) ''DATA_READY'' = Inr (drop_bit 3 v AND 1)"
  by (simp add: status_decoded [OF assms])

lemma status_FW_MODE:
  assumes "bf_structure bf = STATUS_structure"
  shows "bf_getattr (bf_set v bf) ''FW_MODE'' = Inr (drop_bit 7 v AND 1)"
  by (simp add: status_decoded [OF assms])

lemma available_constructed:
  assumes "constructed d"
  shows "available d =
     (Inr (bit (next_status d) 3),
      d\<lparr>device := (device d)\<lparr>trace := trace (device d) @ [ReadU8 CCS811_STATUS]\<rparr>,
        status := bf_set (next_status d) (status d)\<rparr>)"
proof -
  have st: "bf_structure (status d) = STATUS_structure"
    using assms by (simp add: constructed_def)
  show ?thesis
    by (simp add: available_def readU8_def next_status_def raise_or_def Let_def
        status_DATA_READY [OF st] field_bit)
qed

lemma readData_no_data:
  assumes "constructed d" and "\<not> bit (next_status d) 3"
  shows "readData d =
     (Inr (PyBool False),
      d\<lparr>device := (device d)\<lparr>trace := trace (device d) @ [ReadU8 CCS811_STATUS]\<rparr>,
        status := bf_set (next_status d) (status d)\<rparr>)"
  using assms(2) by (simp add: readData_def available_constructed [OF assms(1)])

lemma readData_data:
  assumes "constructed d" and "bit (next_status d) 3"
    and "next_alg_result d = [b0, b1, b2, b3, b4, b5, b6, b7]"
  shows "readData d =
     (Inr (PyInt (if bit (next_status d) 0 then b5 else 0)),
      d\<lparr>device := (device d)\<lparr>trace := trace (device d) @
                       [ReadU8 CCS811_STATUS, ReadList CCS811_ALG_RESULT_DATA 8]\<rparr>,
        status := bf_set (next_status d) (status d),
        eCO2 := push_bit 8 b0 OR b1,
        TVOC := push_bit 8 b2 OR b3\<rparr>)"
proof -
  have st: "bf_structure (status d) = STATUS_structure"
    using assms(1) by (simp add: constructed_def)
  have buf: "answerList (device d) (trace (device d) @ [ReadU8 0]) 2 8
               = [b0, b1, b2, b3, b4, b5, b6, b7]"
    using assms(3) by (simp add: next_alg_result_def)
  show ?thesis
    using assms(2)
    by (simp add: readData_def available_constructed [OF assms(1)] readList_def buf
        raise_or_def py_index_def status_ERROR [OF st] field_bit0 Let_def)
qed

lemma big_endian:
  fixes hi lo :: int
  assumes "is_byte lo"
  shows "push_bit 8 hi OR lo = 256 * hi + lo"
proof -
  have lo: "take_bit 8 lo = lo"
    using assms by (simp add: is_byte_def take_bit_int_eq_self)
  have "push_bit 8 hi OR lo = take_bit 8 lo OR push_bit 8 hi"
    by (simp add: lo or.commute)
  also have "\<dots> = take_bit 8 lo + push_bit 8 hi"
    using concat_bit_eq [of 8 lo hi] by (simp add: concat_bit_def)
  finally show ?thesis
    by (simp add: lo push_bit_eq_mult)
qed

lemma setDriveMode_structure:
  "bf_structure (meas_mode (setDriveMode d m)) = bf_structure (meas_mode d)"
  "status (setDriveMode d m) = status d"
  by (simp_all add: setDriveMode_def Let_def bf_structure_setattr)

lemma disableInterrupt_structure:
  "bf_structure (meas_mode (disableInterrupt d)) = bf_structure (meas_mode d)"
  "status (disableInterrupt d) = status d"
  by (simp_all add: disableInterrupt_def Let_def bf_structure_setattr)

lemma checkError_structure:
  "bf_structure (status (snd (checkError d))) = bf_structure (status d)"
  "meas_mode (snd (checkError d)) = meas_mode d"
  by (simp_all add: checkError_def Let_def readU8_def bf_set_def bf_structure_set)

lemma init_constructed:
  assumes "Adafruit_CCS811_init mode addr i2c = Inr d"
  shows "constructed d"
proof -
  let ?d2 = "\<lparr>device = writeList (snd (readU8 (get_i2c_device i2c addr) CCS811_HW_ID))
                         CCS811_BOOTLOADER_APP_START [],
              status = Adafruit_bitfield STATUS_structure,
              meas_mode = Adafruit_bitfield MEAS_MODE_structure,
              error_id = Adafruit_bitfield ERROR_ID_structure,
              TVOC = 0, eCO2 = 0, tempOffset = 0\<rparr>"
  let ?d3 = "snd (checkError ?d2)"
  have d: "d = setDriveMode (disableInterrupt ?d3) CCS811_DRIVE_MODE_1SEC"
    using assms
    by (auto simp add: Adafruit_CCS811_init_def Let_def split: if_splits prod.splits sum.splits)
  have "bf_structure (status ?d3) = STATUS_structure"
    by (simp add: checkError_structure bf_structure_new)
  moreover have "bf_structure (meas_mode ?d3) = MEAS_MODE_structure"
    by (simp add: checkError_structure bf_structure_new)
  ultimately show ?thesis
    by (simp add: d constructed_def setDriveMode_structure disableInterrupt_structure)
qed

lemma available_constructed_inv: "constructed d \<Longrightarrow> constructed (snd (available d))"
  by (simp add: available_constructed constructed_def bf_set_def bf_structure_set)

lemma readData_constructed_inv: "constructed d \<Longrightarrow> constructed (snd (readData d))"
  by (auto simp add: readData_def available_constructed constructed_def bf_set_def
      bf_structure_set readList_def raise_or_def Let_def split: sum.splits prod.splits)

lemma setDriveMode_constructed_inv: "constructed d \<Longrightarrow> constructed (setDriveMode d m)"
  by (simp add: constructed_def setDriveMode_structure)

lemma setThresholds_constructed_inv: "constructed d \<Longrightarrow> constructed (setThresholds d a b c)"
  by (simp add: constructed_def setThresholds_def Let_def)

lemma calculateTemperature_constructed_inv:
  "constructed d \<Longrightarrow> constructed (snd (calculateTemperature d))"
  by (auto simp add: constructed_def calculateTemperature_def readList_def raise_or_def Let_def
      split: sum.splits prod.splits)

lemma init_drive_mode:
  assumes "Adafruit_CCS811_init mode addr i2c = Inr d"
  shows "bf_getattr (meas_mode d) ''DRIVE_MODE'' = Inr CCS811_DRIVE_MODE_1SEC \<and>
         last (trace (device d)) = Write8 CCS811_MEAS_MODE 0x10"
proof -
  let ?d2 = "\<lparr>device = writeList (snd (readU8 (get_i2c_device i2c addr) CCS811_HW_ID))
                         CCS811_BOOTLOADER_APP_START [],
              status = Adafruit_bitfield STATUS_structure,
              meas_mode = Adafruit_bitfield MEAS_MODE_structure,
              error_id = Adafruit_bitfield ERROR_ID_structure,
              TVOC = 0, eCO2 = 0, tempOffset = 0\<rparr>"
  let ?d3 = "snd (checkError ?d2)"
  have d: "d = setDriveMode (disableInterrupt ?d3) CCS811_DRIVE_MODE_1SEC"
    using assms
    by (auto simp add: Adafruit_CCS811_init_def Let_def split: if_splits prod.splits sum.splits)
  have m: "meas_mode ?d3 = Adafruit_bitfield MEAS_MODE_structure"
    by (simp add: checkError_structure)
  have mm: "meas_mode d = bf_setattr (bf_setattr (Adafruit_bitfield MEAS_MODE_structure)
                             ''INT_DATARDY'' 0) ''DRIVE_MODE'' CCS811_DRIVE_MODE_1SEC"
    by (simp add: d setDriveMode_def disableInterrupt_def Let_def m)
  have t: "last (trace (device d)) = Write8 CCS811_MEAS_MODE (bf_get (meas_mode d))"
    by (simp add: d setDriveMode_def write8_def Let_def)
  have v: "bf_get (bf_setattr (bf_setattr (Adafruit_bitfield MEAS_MODE_structure)
                             ''INT_DATARDY'' 0) ''DRIVE_MODE'' CCS811_DRIVE_MODE_1SEC) = 0x10"
    by (simp add: Adafruit_bitfield_def MEAS_MODE_structure_def bf_get_def mask_eq_exp_minus_1)
  have g: "bf_getattr (bf_setattr (bf_setattr (Adafruit_bitfield MEAS_MODE_structure)
                             ''INT_DATARDY'' 0) ''DRIVE_MODE'' CCS811_DRIVE_MODE_1SEC)
             ''DRIVE_MODE'' = Inr CCS811_DRIVE_MODE_1SEC"
    by (simp add: Adafruit_bitfield_def MEAS_MODE_structure_def)
  show ?thesis
    by (simp only: t mm v g)
qed

lemma sensor_init:
  assumes "mode \<in> {0, 1, 2, 3, 4}" and "hw = 0x81" and "\<not> bit b 0" and "bit b 7"
  shows "Adafruit_CCS811_init mode CCS811_ADDRESS (sensor hw b r alg ntc) =
     Inr (setDriveMode (disableInterrupt
       \<lparr>device = (sensor hw b r alg ntc)\<lparr>address := CCS811_ADDRESS,
            trace := [ReadU8 CCS811_HW_ID, WriteList CCS811_BOOTLOADER_APP_START [],
                      ReadU8 CCS811_STATUS]\<rparr>,
        status = bf_set b (Adafruit_bitfield STATUS_structure),
        meas_mode = Adafruit_bitfield MEAS_MODE_structure,
        error_id = Adafruit_bitfield ERROR_ID_structure,
        TVOC = 0, eCO2 = 0, tempOffset = 0\<rparr>) CCS811_DRIVE_MODE_1SEC)"
  using assms
  by (simp add: Adafruit_CCS811_init_def Let_def checkError_def readU8_def writeList_def
      get_i2c_device_def sensor_def status_ERROR status_FW_MODE bf_structure_new
      field_bit0 bit_drop_bit_eq)

lemma sensor_driver:
  assumes "\<not> bit b 0" and "bit b 7"
  obtains d where
    "Adafruit_CCS811_init CCS811_DRIVE_MODE_1SEC CCS811_ADDRESS (sensor 0x81 b r alg ntc) = Inr d"
    and "constructed d" and "next_status d = r" and "next_alg_result d = alg"
    and "next_ntc d = ntc" and "eCO2 d = 0" and "TVOC d = 0"
proof -
  let ?d3 = "\<lparr>device = (sensor 0x81 b r alg ntc)\<lparr>address := CCS811_ADDRESS,
            trace := [ReadU8 CCS811_HW_ID, WriteList CCS811_BOOTLOADER_APP_START [],
                      ReadU8 CCS811_STATUS]\<rparr>,
        status = bf_set b (Adafruit_bitfield STATUS_structure),
        meas_mode = Adafruit_bitfield MEAS_MODE_structure,
        error_id = Adafruit_bitfield ERROR_ID_structure,
        TVOC = 0, eCO2 = 0, tempOffset = 0\<rparr>"
  let ?d = "setDriveMode (disableInterrupt ?d3) CCS811_DRIVE_MODE_1SEC"
  have r: "Adafruit_CCS811_init CCS811_DRIVE_MODE_1SEC CCS811_ADDRESS (sensor 0x81 b r alg ntc)
             = Inr ?d"
    using assms by (simp add: sensor_init)
  have c: "constructed ?d"
    using r by (rule init_constructed)
  have s: "next_status ?d = r"
    by (simp add: next_status_def setDriveMode_def disableInterrupt_def write8_def Let_def
        sensor_def)
  have a: "next_alg_result ?d = alg"
    by (simp add: next_alg_result_def setDriveMode_def disableInterrupt_def write8_def Let_def
        sensor_def)
  have n: "next_ntc ?d = ntc"
    by (simp add: next_ntc_def setDriveMode_def disableInterrupt_def write8_def Let_def
        sensor_def)
  have e: "eCO2 ?d = 0" "TVOC ?d = 0"
    by (simp_all add: setDriveMode_def disableInterrupt_def Let_def)
  show thesis
    using r c s a n e by (rule that)
qed

lemma polled_sensor_init:
  "Adafruit_CCS811_init CCS811_DRIVE_MODE_1SEC CCS811_ADDRESS
       (polled_sensor 0x81 [0x90, 0x98] 0x90 alg) =
     Inr (setDriveMode (disableInterrupt
       \<lparr>device = (polled_sensor 0x81 [0x90, 0x98] 0x90 alg)\<lparr>address := CCS811_ADDRESS,
            trace := [ReadU8 CCS811_HW_ID, WriteList CCS811_BOOTLOADER_APP_START [],
                      ReadU8 CCS811_STATUS]\<rparr>,
        status = bf_set 0x90 (Adafruit_bitfield STATUS_structure),
        meas_mode = Adafruit_bitfield MEAS_MODE_structure,
        error_id = Adafruit_bitfield ERROR_ID_structure,
        TVOC = 0, eCO2 = 0, tempOffset = 0\<rparr>) CCS811_DRIVE_MODE_1SEC)"
  by (simp add: Adafruit_CCS811_init_def Let_def checkError_def readU8_def writeList_def
      get_i2c_device_def polled_sensor_def status_ERROR status_FW_MODE bf_structure_new
      truthy_def)

section \<open>The claims\<close>

text \<open>
  C1. The constructor validates the caller's drive mode and then applies the constant
  \<open>CCS811_DRIVE_MODE_1SEC\<close>. Constructed with the 10-second mode on a sensor that
  answers the handshake, the driver's transactions end with the measurement-mode register
  written as 0x10 (DRIVE_MODE = 1), not 0x20 (DRIVE_MODE = 2), and its mirror holds
  DRIVE_MODE = 1. (\<open>init_drive_mode\<close> above shows the same for every mode and device.)
\<close>

theorem init_writes_default_mode:
  "(case Adafruit_CCS811_init CCS811_DRIVE_MODE_10SEC CCS811_ADDRESS
           (sensor 0x81 0x90 0x90 [] []) of
      Inl (e, dev) \<Rightarrow> False
    | Inr d \<Rightarrow>
        trace (device d) =
          [ReadU8 CCS811_HW_ID, WriteList CCS811_BOOTLOADER_APP_START [],
           ReadU8 CCS811_STATUS, Write8 CCS811_MEAS_MODE 0x00, Write8 CCS811_MEAS_MODE 0x10] \<and>
        bf_getattr (meas_mode d) ''DRIVE_MODE'' = Inr CCS811_DRIVE_MODE_1SEC)"
proof -
  have "Adafruit_CCS811_init CCS811_DRIVE_MODE_10SEC CCS811_ADDRESS
           (sensor 0x81 0x90 0x90 [] []) =
     Inr (setDriveMode (disableInterrupt
       \<lparr>device = (sensor 0x81 0x90 0x90 [] [])\<lparr>address := CCS811_ADDRESS,
            trace := [ReadU8 CCS811_HW_ID, WriteList CCS811_BOOTLOADER_APP_START [],
                      ReadU8 CCS811_STATUS]\<rparr>,
        status = bf_set 0x90 (Adafruit_bitfield STATUS_structure),
        meas_mode = Adafruit_bitfield MEAS_MODE_structure,
        error_id = Adafruit_bitfield ERROR_ID_structure,
        TVOC = 0, eCO2 = 0, tempOffset = 0\<rparr>) CCS811_DRIVE_MODE_1SEC)"
    by (rule sensor_init) simp_all
  then show ?thesis
    by (simp add: setDriveMode_def disableInterrupt_def write8_def Let_def
        Adafruit_bitfield_def MEAS_MODE_structure_def bf_get_def mask_eq_exp_minus_1)
qed

text \<open>
  C2. \<open>setEnvironmentalData\<close> raises TypeError for every driver and every pair of
  arguments, and leaves the driver and the bus as they were: nothing is written to the
  environmental-data register. With floats (50.0, 25.0) the shift \<open>humidity << 1\<close> raises;
  with integers (50, 25) the one-argument call of \<open>math.fmod\<close> does.
\<close>

theorem setEnvironmentalData_raises:
  "setEnvironmentalData d humidity temperature = (Inl TypeError, d)"
  by (cases humidity)
     (simp_all add: setEnvironmentalData_def raise_or_def py_lshift_def as_int_def math_fmod1_def)

text \<open>
  C3. On a constructed driver, when the status read shows DATA_READY (bit 3) and the
  8-byte algorithm-result payload is \<open>[b0, \<dots>, b7]\<close>, \<open>readData\<close> stores the big-endian
  combination of bytes 0-1 as eCO2 and of bytes 2-3 as TVOC. The payload
  \<open>[0x01, 0x90, 0x00, 0x32, 0, 0, 0, 0]\<close> gives eCO2 = 400 and TVOC = 50.
\<close>

theorem readData_stores_measurements:
  assumes "constructed d" and "bit (next_status d) 3"
    and "next_alg_result d = [b0, b1, b2, b3, b4, b5, b6, b7]"
    and "is_byte b1" and "is_byte b3"
  shows "geteCO2 (snd (readData d)) = 256 * b0 + b1 \<and>
         getTVOC (snd (readData d)) = 256 * b2 + b3"
  by (simp add: readData_data [OF assms(1,2,3)] geteCO2_def getTVOC_def
      big_endian [OF assms(4)] big_endian [OF assms(5)])

theorem readData_stores_measurements_witness:
  "(case Adafruit_CCS811_init CCS811_DRIVE_MODE_1SEC CCS811_ADDRESS
           (sensor 0x81 0x90 0x98 [0x01, 0x90, 0x00, 0x32, 0x00, 0x00, 0x00, 0x00] []) of
      Inl (e, dev) \<Rightarrow> False
    | Inr d \<Rightarrow>
        constructed d \<and> bit (next_status d) 3 \<and>
        next_alg_result d = [0x01, 0x90, 0x00, 0x32, 0x00, 0x00, 0x00, 0x00] \<and>
        is_byte 0x90 \<and> is_byte 0x32 \<and>
        geteCO2 (snd (readData d)) = 400 \<and> getTVOC (snd (readData d)) = 50)"
proof -
  obtain d where r: "Adafruit_CCS811_init CCS811_DRIVE_MODE_1SEC CCS811_ADDRESS
           (sensor 0x81 0x90 0x98 [0x01, 0x90, 0x00, 0x32, 0x00, 0x00, 0x00, 0x00] []) = Inr d"
    and c: "constructed d" and s: "next_status d = 0x98"
    and a: "next_alg_result d = [0x01, 0x90, 0x00, 0x32, 0x00, 0x00, 0x00, 0x00]"
    by (rule sensor_driver [of "0x90" "0x98" "[0x01, 0x90, 0x00, 0x32, 0x00, 0x00, 0x00, 0x00]" "[]"])
       simp_all
  have ready: "bit (next_status d) 3"
    by (simp add: s)
  have b1: "is_byte 0x90" and b3: "is_byte 0x32"
    by (simp_all add: is_byte_def)
  show ?thesis
    using readData_stores_measurements [OF c ready a b1 b3] c ready a b1 b3
    by (simp add: r)
qed

text \<open>
  C4. When the NTC payload's big-endian 16-bit vref (bytes 0-1) is zero,
  \<open>calculateTemperature\<close> returns no number: the float division raises
  ZeroDivisionError.
\<close>

theorem calculateTemperature_vref_zero:
  assumes "next_ntc d = [b0, b1, b2, b3]" and "is_byte b1" and "256 * b0 + b1 = 0"
  shows "fst (calculateTemperature d) = Inl ZeroDivisionError"
proof -
  have vref: "push_bit 8 b0 OR b1 = 0"
    using assms(3) by (simp add: big_endian [OF assms(2)])
  have buf: "answerList (device d) (trace (device d)) 6 4 = [b0, b1, b2, b3]"
    using assms(1) by (simp add: next_ntc_def)
  show ?thesis
    by (simp add: calculateTemperature_def readList_def buf raise_or_def py_index_def
        Let_def vref py_float_div_def)
qed

theorem calculateTemperature_vref_zero_witness:
  "(case Adafruit_CCS811_init CCS811_DRIVE_MODE_1SEC CCS811_ADDRESS
           (sensor 0x81 0x90 0x98 [] [0x00, 0x00, 0x01, 0x2C]) of
      Inl (e, dev) \<Rightarrow> False
    | Inr d \<Rightarrow>
        next_ntc d = [0x00, 0x00, 0x01, 0x2C] \<and> is_byte 0x00 \<and> 256 * 0x00 + 0x00 = (0::int) \<and>
        fst (calculateTemperature d) = Inl ZeroDivisionError)"
proof -
  obtain d where r: "Adafruit_CCS811_init CCS811_DRIVE_MODE_1SEC CCS811_ADDRESS
           (sensor 0x81 0x90 0x98 [] [0x00, 0x00, 0x01, 0x2C]) = Inr d"
    and n: "next_ntc d = [0x00, 0x00, 0x01, 0x2C]"
    by (rule sensor_driver [of "0x90" "0x98" "[]" "[0x00, 0x00, 0x01, 0x2C]"]) simp_all
  have b: "is_byte 0x00"
    by (simp add: is_byte_def)
  have z: "256 * 0x00 + 0x00 = (0::int)"
    by simp
  show ?thesis
    using calculateTemperature_vref_zero [OF n b z] n b
    by (simp add: r)
qed

text \<open>
  C5. On a constructed driver with data available and the 8-byte payload
  \<open>[b0, \<dots>, b7]\<close>: the refreshed status mirror's ERROR field is bit 0 of the status byte
  just read, and \<open>readData\<close> returns payload byte 5 if that bit is set and 0 otherwise.
\<close>

theorem readData_error_byte:
  assumes "constructed d" and "bit (next_status d) 3"
    and "next_alg_result d = [b0, b1, b2, b3, b4, b5, b6, b7]"
  shows "bf_getattr (status (snd (readData d))) ''ERROR'' = Inr (of_bool (bit (next_status d) 0)) \<and>
         fst (readData d) = Inr (PyInt (if bit (next_status d) 0 then b5 else 0))"
proof -
  have st: "bf_structure (status d) = STATUS_structure"
    using assms(1) by (simp add: constructed_def)
  have "next_status d AND 1 = of_bool (bit (next_status d) 0)"
    by (simp add: and_one_eq bit_0 mod_2_eq_odd)
  then show ?thesis
    by (simp add: readData_data [OF assms] status_ERROR [OF st])
qed

theorem readData_error_byte_witness:
  "(case Adafruit_CCS811_init CCS811_DRIVE_MODE_1SEC CCS811_ADDRESS
           (sensor 0x81 0x90 0x99 [0x01, 0x90, 0x00, 0x32, 0x99, 0x02, 0x00, 0x00] []) of
      Inl (e, dev) \<Rightarrow> False
    | Inr d \<Rightarrow>
        constructed d \<and> bit (next_status d) 3 \<and>
        next_alg_result d = [0x01, 0x90, 0x00, 0x32, 0x99, 0x02, 0x00, 0x00] \<and>
        bf_getattr (status (snd (readData d))) ''ERROR'' = Inr 1 \<and>
        fst (readData d) = Inr (PyInt 0x02))"
proof -
  obtain d where r: "Adafruit_CCS811_init CCS811_DRIVE_MODE_1SEC CCS811_ADDRESS
           (sensor 0x81 0x90 0x99 [0x01, 0x90, 0x00, 0x32, 0x99, 0x02, 0x00, 0x00] []) = Inr d"
    and c: "constructed d" and s: "next_status d = 0x99"
    and a: "next_alg_result d = [0x01, 0x90, 0x00, 0x32, 0x99, 0x02, 0x00, 0x00]"
    by (rule sensor_driver [of "0x90" "0x99" "[0x01, 0x90, 0x00, 0x32, 0x99, 0x02, 0x00, 0x00]" "[]"])
       simp_all
  have ready: "bit (next_status d) 3"
    by (simp add: s)
  have err: "bit (next_status d) 0"
    by (simp add: s)
  show ?thesis
    using readData_error_byte [OF c ready a] c ready a err
    by (simp add: r)
qed

text \<open>
  C6. For every mode outside \<open>{0, 1, 2, 3, 4}\<close> the constructor raises ValueError and
  the bus is as it was handed in: no transaction has been issued.
\<close>

theorem init_invalid_mode:
  assumes "mode \<notin> {0, 1, 2, 3, 4}"
  shows "Adafruit_CCS811_init mode addr i2c = Inl (ValueError, i2c)"
  using assms by (simp add: Adafruit_CCS811_init_def)

theorem init_invalid_mode_witness:
  "(5::int) \<notin> {0, 1, 2, 3, 4} \<and>
   Adafruit_CCS811_init 5 CCS811_ADDRESS (sensor 0x81 0x90 0x90 [] []) =
     Inl (ValueError, sensor 0x81 0x90 0x90 [] []) \<and>
   trace (sensor 0x81 0x90 0x90 [] []) = []"
proof -
  have h: "(5::int) \<notin> {0, 1, 2, 3, 4}" by simp
  show ?thesis
    using init_invalid_mode [OF h, of CCS811_ADDRESS "sensor 0x81 0x90 0x90 [] []"] h
    by (simp add: sensor_def)
qed

text \<open>
  C7. On a constructed driver, when the status read shows DATA_READY (bit 3) as 0,
  \<open>readData\<close> returns \<open>False\<close> and the only transaction it issues is the read of the
  status register: the 8-byte read of the algorithm-result register is not issued.
\<close>

theorem readData_no_data_sentinel:
  assumes "constructed d" and "\<not> bit (next_status d) 3"
  shows "fst (readData d) = Inr (PyBool False) \<and>
         trace (device (snd (readData d))) = trace (device d) @ [ReadU8 CCS811_STATUS]"
  by (simp add: readData_no_data [OF assms])

theorem readData_no_data_sentinel_witness:
  "(case Adafruit_CCS811_init CCS811_DRIVE_MODE_1SEC CCS811_ADDRESS
           (sensor 0x81 0x90 0x90 [] []) of
      Inl (e, dev) \<Rightarrow> False
    | Inr d \<Rightarrow>
        constructed d \<and> \<not> bit (next_status d) 3 \<and>
        fst (readData d) = Inr (PyBool False) \<and>
        trace (device (snd (readData d))) =
          [ReadU8 CCS811_HW_ID, WriteList CCS811_BOOTLOADER_APP_START [],
           ReadU8 CCS811_STATUS, Write8 CCS811_MEAS_MODE 0x00, Write8 CCS811_MEAS_MODE 0x10,
           ReadU8 CCS811_STATUS])"
proof -
  have t: "trace (device (snd (readData d))) = trace (device d) @ [ReadU8 CCS811_STATUS] \<Longrightarrow>
        Adafruit_CCS811_init CCS811_DRIVE_MODE_1SEC CCS811_ADDRESS
           (sensor 0x81 0x90 0x90 [] []) = Inr d \<Longrightarrow>
        trace (device (snd (readData d))) =
          [ReadU8 CCS811_HW_ID, WriteList CCS811_BOOTLOADER_APP_START [],
           ReadU8 CCS811_STATUS, Write8 CCS811_MEAS_MODE 0x00, Write8 CCS811_MEAS_MODE 0x10,
           ReadU8 CCS811_STATUS]" for d
    by (auto simp add: sensor_init setDriveMode_def disableInterrupt_def write8_def Let_def
        Adafruit_bitfield_def MEAS_MODE_structure_def bf_get_def mask_eq_exp_minus_1)
  obtain d where r: "Adafruit_CCS811_init CCS811_DRIVE_MODE_1SEC CCS811_ADDRESS
           (sensor 0x81 0x90 0x90 [] []) = Inr d"
    and c: "constructed d" and s: "next_status d = 0x90"
    by (rule sensor_driver [of "0x90" "0x90" "[]" "[]"]) simp_all
  have nodata: "\<not> bit (next_status d) 3"
    by (simp add: s)
  show ?thesis
    using readData_no_data_sentinel [OF c nodata] c nodata t [OF _ r]
    by (simp add: r)
qed

text \<open>
  C8. For all \<open>low_med\<close>, \<open>med_high\<close> and \<open>hysteresis\<close>, \<open>setThresholds\<close> issues exactly
  one transaction, the write of the 5-byte buffer
  \<open>[(low_med >> 8) & 0xF, low_med & 0xF, (med_high >> 8) & 0xF, med_high & 0xF, hysteresis]\<close>
  to the threshold register; byte 0 is the low nibble of the high byte of \<open>low_med\<close>.
\<close>

theorem setThresholds_buffer:
  "trace (device (setThresholds d low_med med_high hysteresis)) =
     trace (device d) @
       [WriteList CCS811_THRESHOLDS
          [drop_bit 8 low_med AND 0xF, low_med AND 0xF,
           drop_bit 8 med_high AND 0xF, med_high AND 0xF, hysteresis]] \<and>
   drop_bit 8 low_med AND 0xF = (low_med div 256) mod 16"
proof -
  have "drop_bit 8 low_med AND mask 4 = (low_med div 2 ^ 8) mod 2 ^ 4"
    by (simp only: drop_bit_eq_div take_bit_eq_mod flip: take_bit_eq_mask)
  then have "drop_bit 8 low_med AND 0xF = (low_med div 256) mod 16"
    by (simp add: mask_eq_exp_minus_1)
  then show ?thesis
    by (simp add: setThresholds_def writeList_def Let_def)
qed



text \<open>
  C10. Whenever \<open>readData\<close> returns \<open>False\<close>, \<open>geteCO2\<close> and \<open>getTVOC\<close> give after
  the call what they gave before it. On a polled sensor, a first call reads eCO2 = 400 and
  TVOC = 50, and a second call that finds no data keeps both.
\<close>

theorem readData_no_data_frame:
  assumes "fst (readData d) = Inr (PyBool False)"
  shows "geteCO2 (snd (readData d)) = geteCO2 d \<and> getTVOC (snd (readData d)) = getTVOC d"
  using assms
  by (auto simp add: readData_def available_def raise_or_def readU8_def readList_def Let_def
      geteCO2_def getTVOC_def split: prod.splits sum.splits if_splits)

theorem readData_no_data_frame_witness:
  "(case Adafruit_CCS811_init CCS811_DRIVE_MODE_1SEC CCS811_ADDRESS
           (polled_sensor 0x81 [0x90, 0x98] 0x90
              [0x01, 0x90, 0x00, 0x32, 0x00, 0x00, 0x00, 0x00]) of
      Inl (e, dev) \<Rightarrow> False
    | Inr d \<Rightarrow>
        fst (readData d) = Inr (PyInt 0) \<and>
        geteCO2 (snd (readData d)) = 400 \<and> getTVOC (snd (readData d)) = 50 \<and>
        fst (readData (snd (readData d))) = Inr (PyBool False) \<and>
        geteCO2 (snd (readData (snd (readData d)))) = 400 \<and>
        getTVOC (snd (readData (snd (readData d)))) = 50)"
proof -
  let ?alg = "[0x01, 0x90, 0x00, 0x32, 0x00, 0x00, 0x00, 0x00] :: int list"
  let ?d3 = "\<lparr>device = (polled_sensor 0x81 [0x90, 0x98] 0x90 ?alg)\<lparr>address := CCS811_ADDRESS,
            trace := [ReadU8 CCS811_HW_ID, WriteList CCS811_BOOTLOADER_APP_START [],
                      ReadU8 CCS811_STATUS]\<rparr>,
        status = bf_set 0x90 (Adafruit_bitfield STATUS_structure),
        meas_mode = Adafruit_bitfield MEAS_MODE_structure,
        error_id = Adafruit_bitfield ERROR_ID_structure,
        TVOC = 0, eCO2 = 0, tempOffset = 0\<rparr>"
  let ?d = "setDriveMode (disableInterrupt ?d3) CCS811_DRIVE_MODE_1SEC"
  let ?d1 = "snd (readData ?d)"
  have r: "Adafruit_CCS811_init CCS811_DRIVE_MODE_1SEC CCS811_ADDRESS
             (polled_sensor 0x81 [0x90, 0x98] 0x90 ?alg) = Inr ?d"
    by (rule polled_sensor_init)
  have c: "constructed ?d"
    using r by (rule init_constructed)
  have s: "next_status ?d = 0x98"
    by (simp add: next_status_def setDriveMode_def disableInterrupt_def write8_def Let_def
        polled_sensor_def)
  have a: "next_alg_result ?d = ?alg"
    by (simp add: next_alg_result_def setDriveMode_def disableInterrupt_def write8_def Let_def
        polled_sensor_def)
  have ready: "bit (next_status ?d) 3"
    by (simp add: s)
  have noerr: "\<not> bit (next_status ?d) 0"
    by (simp add: s)
  note first = readData_data [OF c ready a]
  have res1: "fst (readData ?d) = Inr (PyInt 0)"
    using noerr by (simp add: first)
  have e1: "geteCO2 ?d1 = 400" and t1: "getTVOC ?d1 = 50"
    by (simp_all add: first geteCO2_def getTVOC_def)
  have c1: "constructed ?d1"
    using c by (rule readData_constructed_inv)
  have dev1: "device ?d1 = (device ?d)\<lparr>trace := trace (device ?d) @
                       [ReadU8 CCS811_STATUS, ReadList CCS811_ALG_RESULT_DATA 8]\<rparr>"
    by (simp add: first)
  have s1: "next_status ?d1 = 0x90"
    unfolding next_status_def dev1
    by (simp add: setDriveMode_def disableInterrupt_def write8_def Let_def polled_sensor_def)
  have nodata: "\<not> bit (next_status ?d1) 3"
    by (simp add: s1)
  have h: "fst (readData ?d1) = Inr (PyBool False)"
    by (simp add: readData_no_data [OF c1 nodata])
  have "fst (readData ?d) = Inr (PyInt 0) \<and>
        geteCO2 ?d1 = 400 \<and> getTVOC ?d1 = 50 \<and>
        fst (readData ?d1) = Inr (PyBool False) \<and>
        geteCO2 (snd (readData ?d1)) = 400 \<and> getTVOC (snd (readData ?d1)) = 50"
    using readData_no_data_frame [OF h] h res1 e1 t1 by simp
  then show ?thesis
    by (simp only: r sum.case)
qed


end
